theory Spec2Isabelle
  imports Complex_Main
begin

section \<open>Numbers of the optimizer\<close>

text \<open>
  The optimizer of \<^verbatim>\<open>src/netlify/functions/optimizer.py\<close> computes with Python floats and
  numpy float64 arrays. A finite float is modelled as a real number: rounding, overflow of a
  finite result to infinity, underflow and the sign of zero are not modelled. The two
  infinities and NaN are values of their own, because the source creates them itself
  (\<^verbatim>\<open>float('inf')\<close> as the default of a missing price or duration) and IEEE 754 fixes what
  arithmetic and comparison do with them.
\<close>

datatype pyfloat = NaN | NInf | Fin real | PInf

fun is_nan :: "pyfloat \<Rightarrow> bool" where
  "is_nan NaN = True"
| "is_nan _ = False"

fun fneg :: "pyfloat \<Rightarrow> pyfloat" where
  "fneg NaN = NaN"
| "fneg NInf = PInf"
| "fneg (Fin a) = Fin (- a)"
| "fneg PInf = NInf"


text \<open>Addition: NaN is absorbing and the sum of opposite infinities is NaN.\<close>

fun fadd :: "pyfloat \<Rightarrow> pyfloat \<Rightarrow> pyfloat" where
  "fadd NaN _ = NaN"
| "fadd _ NaN = NaN"
| "fadd (Fin a) (Fin b) = Fin (a + b)"
| "fadd PInf NInf = NaN"
| "fadd NInf PInf = NaN"
| "fadd PInf _ = PInf"
| "fadd _ PInf = PInf"
| "fadd NInf _ = NInf"
| "fadd _ NInf = NInf"

definition fsub :: "pyfloat \<Rightarrow> pyfloat \<Rightarrow> pyfloat" where
  "fsub a b = fadd a (fneg b)"

text \<open>Multiplication: zero times an infinity is NaN, otherwise the signs multiply.\<close>

fun fmul :: "pyfloat \<Rightarrow> pyfloat \<Rightarrow> pyfloat" where
  "fmul NaN _ = NaN"
| "fmul _ NaN = NaN"
| "fmul (Fin a) (Fin b) = Fin (a * b)"
| "fmul (Fin a) PInf = (if a = 0 then NaN else if 0 < a then PInf else NInf)"
| "fmul (Fin a) NInf = (if a = 0 then NaN else if 0 < a then NInf else PInf)"
| "fmul PInf (Fin b) = (if b = 0 then NaN else if 0 < b then PInf else NInf)"
| "fmul NInf (Fin b) = (if b = 0 then NaN else if 0 < b then NInf else PInf)"
| "fmul PInf PInf = PInf"
| "fmul PInf NInf = NInf"
| "fmul NInf PInf = NInf"
| "fmul NInf NInf = PInf"

text \<open>
  Division as numpy's \<^verbatim>\<open>true_divide\<close> performs it: a finite value over an infinity is
  zero, an infinity over an infinity is NaN, and a zero divisor gives an infinity (NaN for
  \<^verbatim>\<open>0/0\<close>) instead of raising. Python's own \<^verbatim>\<open>/\<close> raises ZeroDivisionError on a zero
  divisor; the one place where the source divides Python floats is guarded by
  \<^verbatim>\<open>price > 0\<close>, see \<open>value_divisor_nonzero\<close> below.
\<close>

fun fdiv :: "pyfloat \<Rightarrow> pyfloat \<Rightarrow> pyfloat" where
  "fdiv NaN _ = NaN"
| "fdiv _ NaN = NaN"
| "fdiv (Fin a) (Fin b) =
     (if b = 0 then (if a = 0 then NaN else if 0 < a then PInf else NInf) else Fin (a / b))"
| "fdiv (Fin a) PInf = Fin 0"
| "fdiv (Fin a) NInf = Fin 0"
| "fdiv PInf (Fin b) = (if 0 \<le> b then PInf else NInf)"
| "fdiv NInf (Fin b) = (if 0 \<le> b then NInf else PInf)"
| "fdiv PInf PInf = NaN"
| "fdiv PInf NInf = NaN"
| "fdiv NInf PInf = NaN"
| "fdiv NInf NInf = NaN"

text \<open>Comparisons: every comparison with NaN is false.\<close>

fun flt :: "pyfloat \<Rightarrow> pyfloat \<Rightarrow> bool" where
  "flt NaN _ = False"
| "flt _ NaN = False"
| "flt (Fin a) (Fin b) = (a < b)"
| "flt NInf NInf = False"
| "flt NInf _ = True"
| "flt _ NInf = False"
| "flt PInf _ = False"
| "flt _ PInf = True"

definition fgt :: "pyfloat \<Rightarrow> pyfloat \<Rightarrow> bool" where
  "fgt a b = flt b a"

definition fle :: "pyfloat \<Rightarrow> pyfloat \<Rightarrow> bool" where
  "fle a b = (\<not> is_nan a \<and> \<not> is_nan b \<and> \<not> flt b a)"

definition feq :: "pyfloat \<Rightarrow> pyfloat \<Rightarrow> bool" where
  "feq a b = (\<not> is_nan a \<and> a = b)"

section \<open>Errors and the optimizer object\<close>

text \<open>
  The exceptions the modelled code can raise. The source raises Python's built-in
  \<^verbatim>\<open>ValueError\<close> for a bad weight pair; \<^verbatim>\<open>datetime.strptime\<close> raises the same class for
  a date that does not parse, date arithmetic raises \<^verbatim>\<open>OverflowError\<close> beyond year 9999,
  and an index out of range raises \<^verbatim>\<open>IndexError\<close>.
\<close>

datatype error = ValueError | OverflowError | IndexError

record optimizer =
  cost_weight :: pyfloat
  time_weight :: pyfloat


section \<open>numpy reductions and list primitives\<close>

text \<open>
  \<^verbatim>\<open>np.max\<close> and \<^verbatim>\<open>np.min\<close> propagate NaN and raise \<^verbatim>\<open>ValueError\<close> on an empty
  array.
\<close>

definition np_max2 :: "pyfloat \<Rightarrow> pyfloat \<Rightarrow> pyfloat" where
  "np_max2 m x = (if is_nan m then m else if is_nan x then x else if flt m x then x else m)"

definition np_min2 :: "pyfloat \<Rightarrow> pyfloat \<Rightarrow> pyfloat" where
  "np_min2 m x = (if is_nan m then m else if is_nan x then x else if flt x m then x else m)"

definition np_max :: "pyfloat list \<Rightarrow> error + pyfloat" where
  "np_max xs = (case xs of [] \<Rightarrow> Inl ValueError | x # ys \<Rightarrow> Inr (foldl np_max2 x ys))"

definition np_min :: "pyfloat list \<Rightarrow> error + pyfloat" where
  "np_min xs = (case xs of [] \<Rightarrow> Inl ValueError | x # ys \<Rightarrow> Inr (foldl np_min2 x ys))"

text \<open>
  \<^verbatim>\<open>np.argmax\<close> on floats, as numpy's argmax loop runs: the running maximum is replaced
  when the next element is not \<open>\<le>\<close> it, and the scan stops at the first NaN, which counts
  as maximal. The arguments are the running maximum, its index, the index of the next
  element and the rest of the array.
\<close>

fun argmax_loop :: "pyfloat \<Rightarrow> nat \<Rightarrow> nat \<Rightarrow> pyfloat list \<Rightarrow> nat" where
  "argmax_loop mp max_ind i [] = max_ind"
| "argmax_loop mp max_ind i (x # xs) =
     (if \<not> fle x mp then (if is_nan x then i else argmax_loop x i (Suc i) xs)
      else argmax_loop mp max_ind (Suc i) xs)"

definition np_argmax :: "pyfloat list \<Rightarrow> error + nat" where
  "np_argmax xs =
     (case xs of [] \<Rightarrow> Inl ValueError
      | x # ys \<Rightarrow> if is_nan x then Inr 0 else Inr (argmax_loop x 0 1 ys))"

text \<open>
  \<^verbatim>\<open>list.index\<close>: the position of the first element equal to the value, \<^verbatim>\<open>ValueError\<close>
  when there is none. Python compares by identity first and then by \<^verbatim>\<open>==\<close>; the model
  compares values, so a NaN is found at the first NaN of the list.
\<close>

fun index_from :: "nat \<Rightarrow> 'a \<Rightarrow> 'a list \<Rightarrow> error + nat" where
  "index_from i v [] = Inl ValueError"
| "index_from i v (x # xs) = (if x = v then Inr i else index_from (Suc i) v xs)"

definition py_index :: "'a list \<Rightarrow> 'a \<Rightarrow> error + nat" where
  "py_index xs v = index_from 0 v xs"

text \<open>Reading position \<open>i\<close> of a list or array raises \<^verbatim>\<open>IndexError\<close> out of range.\<close>

definition py_get :: "'a list \<Rightarrow> nat \<Rightarrow> error + 'a" where
  "py_get xs i = (if i < length xs then Inr (xs ! i) else Inl IndexError)"

text \<open>Python's \<^verbatim>\<open>sum\<close> adds from the left, starting at 0.\<close>

definition py_sum :: "pyfloat list \<Rightarrow> pyfloat" where
  "py_sum xs = foldl fadd (Fin 0) xs"

section \<open>Candidates\<close>

text \<open>
  A candidate (flight, hotel or activity) is a Python dict. The optimizer reads five keys
  with \<^verbatim>\<open>dict.get\<close>; each may be absent, which is \<open>None\<close> here. The remaining keys
  (airline, name and so on) are carried along in \<open>other\<close>. Numeric keys hold numbers and
  \<^verbatim>\<open>date\<close> holds a string.
\<close>

record candidate =
  total_price :: "pyfloat option"
  duration_hours :: "pyfloat option"
  rating :: "pyfloat option"
  price_per_person :: "pyfloat option"
  date :: "string option"
  other :: "(string \<times> string) list"

text \<open>\<^verbatim>\<open>d.get(key, default)\<close> on a field.\<close>

definition dict_get :: "'a option \<Rightarrow> 'a \<Rightarrow> 'a" where
  "dict_get field dflt = (case field of None \<Rightarrow> dflt | Some v \<Rightarrow> v)"

text \<open>The truth value of a dict in \<^verbatim>\<open>if best_flight:\<close> is whether it has any key.\<close>

definition truthy :: "candidate \<Rightarrow> bool" where
  "truthy c = (\<not> (total_price c = None \<and> duration_hours c = None \<and> rating c = None
                 \<and> price_per_person c = None \<and> date c = None \<and> other c = []))"

section \<open>Scorer\<close>

text \<open>
  An exception raised by a step ends the whole computation: \<open>bind_result r f\<close> passes the
  error of \<open>r\<close> on and otherwise continues with \<open>f\<close> on the value.
\<close>

definition bind_result :: "error + 'a \<Rightarrow> ('a \<Rightarrow> error + 'b) \<Rightarrow> error + 'b" where
  "bind_result r f = (case r of Inl e \<Rightarrow> Inl e | Inr v \<Rightarrow> f v)"

text \<open>
  \<^verbatim>\<open>normalize_cost\<close> and \<^verbatim>\<open>normalize_time\<close> (neither reads \<^verbatim>\<open>self\<close>). The array
  operations of numpy act on every element.
\<close>

definition normalize_cost :: "pyfloat list \<Rightarrow> error + pyfloat list" where
  "normalize_cost costs =
     (if costs = [] then Inr []
      else bind_result (np_max costs) (\<lambda>max_cost.
           bind_result (np_min costs) (\<lambda>min_cost.
           if feq max_cost min_cost then Inr (map (\<lambda>c. Fin 1) costs)
           else Inr (map (\<lambda>c. fsub (Fin 1) (fdiv (fsub c min_cost) (fsub max_cost min_cost)))
                      costs))))"

definition normalize_time :: "pyfloat list \<Rightarrow> error + pyfloat list" where
  "normalize_time time_list =
     (if time_list = [] then Inr []
      else bind_result (np_max time_list) (\<lambda>max_time.
           bind_result (np_min time_list) (\<lambda>min_time.
           if feq max_time min_time then Inr (map (\<lambda>t. Fin 1) time_list)
           else Inr (map (\<lambda>t. fsub (Fin 1) (fdiv (fsub t min_time) (fsub max_time min_time)))
                      time_list))))"

text \<open>
  The rating normalization is written inline in \<^verbatim>\<open>select_best_hotel\<close> (higher is
  better); it is named here so that it can be stated about. It has no guard for an empty
  array: \<^verbatim>\<open>np.max\<close> raises there.
\<close>

definition normalize_rating :: "pyfloat list \<Rightarrow> error + pyfloat list" where
  "normalize_rating ratings =
     bind_result (np_max ratings) (\<lambda>max_rating.
     bind_result (np_min ratings) (\<lambda>min_rating.
     if feq max_rating min_rating then Inr (map (\<lambda>r. Fin 1) ratings)
     else Inr (map (\<lambda>r. fdiv (fsub r min_rating) (fsub max_rating min_rating)) ratings)))"

definition calculate_score ::
  "optimizer \<Rightarrow> pyfloat \<Rightarrow> pyfloat \<Rightarrow> pyfloat list \<Rightarrow> pyfloat list \<Rightarrow> error + pyfloat" where
  "calculate_score self cost time all_costs all_times =
     bind_result (normalize_cost all_costs) (\<lambda>cost_normalized.
     bind_result (normalize_time all_times) (\<lambda>time_normalized.
     bind_result (py_index all_costs cost) (\<lambda>cost_idx.
     bind_result (py_index all_times time) (\<lambda>time_idx.
     bind_result (py_get cost_normalized cost_idx) (\<lambda>cost_score.
     bind_result (py_get time_normalized time_idx) (\<lambda>time_score.
     Inr (fadd (fmul (cost_weight self) cost_score) (fmul (time_weight self) time_score))))))))"

section \<open>Single-best selection\<close>

text \<open>
  The scoring loop of \<^verbatim>\<open>select_best_flight\<close>: \<open>i\<close> runs over the positions of the
  flights, and each score is appended to \<open>scores\<close>.
\<close>

fun score_loop ::
  "optimizer \<Rightarrow> pyfloat list \<Rightarrow> pyfloat list \<Rightarrow> nat list \<Rightarrow> pyfloat list
   \<Rightarrow> error + pyfloat list" where
  "score_loop self costs time_list [] scores = Inr scores"
| "score_loop self costs time_list (i # rest) scores =
     bind_result (py_get costs i) (\<lambda>cost.
     bind_result (py_get time_list i) (\<lambda>time.
     bind_result (calculate_score self cost time costs time_list) (\<lambda>score.
     score_loop self costs time_list rest (scores @ [score]))))"

definition select_best_flight :: "optimizer \<Rightarrow> candidate list \<Rightarrow> error + candidate option" where
  "select_best_flight self flights =
     (if flights = [] then Inr None
      else let costs = map (\<lambda>f. dict_get (total_price f) PInf) flights;
               time_list = map (\<lambda>f. dict_get (duration_hours f) PInf) flights
           in bind_result (score_loop self costs time_list [0..<length flights] []) (\<lambda>scores.
              bind_result (np_argmax scores) (\<lambda>best_idx.
              bind_result (py_get flights best_idx) (\<lambda>f. Inr (Some f)))))"

text \<open>
  In \<^verbatim>\<open>select_best_hotel\<close> the scores are one numpy expression over the two score
  arrays, which have the length of \<open>hotels\<close>.
\<close>

definition select_best_hotel :: "optimizer \<Rightarrow> candidate list \<Rightarrow> error + candidate option" where
  "select_best_hotel self hotels =
     (if hotels = [] then Inr None
      else let costs = map (\<lambda>h. dict_get (total_price h) PInf) hotels;
               ratings = map (\<lambda>h. dict_get (rating h) (Fin 0)) hotels
           in bind_result (normalize_rating ratings) (\<lambda>rating_scores.
              bind_result (normalize_cost costs) (\<lambda>cost_scores.
              let scores = map2 (\<lambda>c r. fadd (fmul (cost_weight self) c) (fmul (time_weight self) r))
                             cost_scores rating_scores
              in bind_result (np_argmax scores) (\<lambda>best_idx.
                 bind_result (py_get hotels best_idx) (\<lambda>h. Inr (Some h))))))"

section \<open>Per-day activity selection\<close>

definition act_price :: "candidate \<Rightarrow> pyfloat" where
  "act_price a = dict_get (price_per_person a) PInf"

definition act_rating :: "candidate \<Rightarrow> pyfloat" where
  "act_rating a = dict_get (rating a) (Fin 0)"

definition act_duration :: "candidate \<Rightarrow> pyfloat" where
  "act_duration a = dict_get (duration_hours a) (Fin 0)"

text \<open>The first loop of \<^verbatim>\<open>select_activities\<close>, appending to \<^verbatim>\<open>activities_with_value\<close>.\<close>

fun value_loop :: "candidate list \<Rightarrow> (pyfloat \<times> candidate) list \<Rightarrow> (pyfloat \<times> candidate) list" where
  "value_loop [] activities_with_value = activities_with_value"
| "value_loop (activity # rest) activities_with_value =
     (let price = act_price activity;
          rating = act_rating activity;
          duration = act_duration activity
      in if fgt price (Fin 0) \<and> fgt duration (Fin 0)
         then value_loop rest
                (activities_with_value @ [(fdiv (fmul rating (Fin 2)) (fdiv price (Fin 50)), activity)])
         else value_loop rest activities_with_value)"

text \<open>
  \<^verbatim>\<open>list.sort(key=..., reverse=True)\<close> is a stable sort into descending key order. It is
  modelled by insertion from the right: an element goes behind exactly the elements whose
  key is strictly greater. When a key is NaN, Python's result depends on the comparisons
  its merge sort happens to make; the model is exact for keys without NaN.
\<close>

fun insert_desc :: "(pyfloat \<times> 'a) \<Rightarrow> (pyfloat \<times> 'a) list \<Rightarrow> (pyfloat \<times> 'a) list" where
  "insert_desc x [] = [x]"
| "insert_desc x (y # ys) = (if flt (fst x) (fst y) then y # insert_desc x ys else x # y # ys)"

definition sort_desc :: "(pyfloat \<times> 'a) list \<Rightarrow> (pyfloat \<times> 'a) list" where
  "sort_desc xs = foldr insert_desc xs []"

text \<open>The second loop: one greedy pass over the sorted pairs.\<close>

fun greedy_loop ::
  "int \<Rightarrow> pyfloat \<Rightarrow> (pyfloat \<times> candidate) list \<Rightarrow> candidate list \<Rightarrow> pyfloat \<Rightarrow> candidate list" where
  "greedy_loop max_activities_per_day max_total_hours [] selected total_hours = selected"
| "greedy_loop max_activities_per_day max_total_hours ((value_score, activity) # rest)
       selected total_hours =
     (let duration = act_duration activity
      in if int (length selected) < max_activities_per_day
            \<and> fle (fadd total_hours duration) max_total_hours
         then greedy_loop max_activities_per_day max_total_hours rest
                (selected @ [activity]) (fadd total_hours duration)
         else greedy_loop max_activities_per_day max_total_hours rest selected total_hours)"

definition select_activities :: "candidate list \<Rightarrow> int \<Rightarrow> pyfloat \<Rightarrow> candidate list" where
  "select_activities activities max_activities_per_day max_total_hours =
     (if activities = [] then []
      else greedy_loop max_activities_per_day max_total_hours
             (sort_desc (value_loop activities [])) [] (Fin 0))"

subsection \<open>The reference algorithm of the specification\<close>







section \<open>Calendar dates\<close>

text \<open>
  \<^verbatim>\<open>create_itinerary\<close> parses its two dates with \<^verbatim>\<open>datetime.strptime(s, "%Y-%m-%d")\<close>,
  adds \<^verbatim>\<open>timedelta(days=1)\<close>, compares, subtracts and formats with \<^verbatim>\<open>strftime\<close>. All
  these datetimes are at midnight, and such a datetime is represented by its proleptic
  Gregorian ordinal (day 1 is 0001-01-01), which is what Python's date arithmetic works on:
  adding days adds to the ordinal, a difference in days is the difference of the ordinals
  and the order of datetimes is the order of the ordinals. The calendar arithmetic follows
  \<^verbatim>\<open>_ymd2ord\<close> and \<^verbatim>\<open>_ord2ymd\<close> of the standard library.
\<close>

definition MAXORDINAL :: int where
  "MAXORDINAL = 3652059"

definition is_leap :: "int \<Rightarrow> bool" where
  "is_leap year = (year mod 4 = 0 \<and> (year mod 100 \<noteq> 0 \<or> year mod 400 = 0))"

definition DAYS_IN_MONTH :: "int list" where
  "DAYS_IN_MONTH = [- 1, 31, 28, 31, 30, 31, 30, 31, 31, 30, 31, 30, 31]"

definition DAYS_BEFORE_MONTH :: "int list" where
  "DAYS_BEFORE_MONTH = [- 1, 0, 31, 59, 90, 120, 151, 181, 212, 243, 273, 304, 334]"

definition days_in_month :: "int \<Rightarrow> int \<Rightarrow> int" where
  "days_in_month year month =
     (if month = 2 \<and> is_leap year then 29 else DAYS_IN_MONTH ! nat month)"

definition days_before_year :: "int \<Rightarrow> int" where
  "days_before_year year =
     (let y = year - 1 in y * 365 + y div 4 - y div 100 + y div 400)"

definition days_before_month :: "int \<Rightarrow> int \<Rightarrow> int" where
  "days_before_month year month =
     DAYS_BEFORE_MONTH ! nat month + (if month > 2 \<and> is_leap year then 1 else 0)"

definition ymd2ord :: "int \<Rightarrow> int \<Rightarrow> int \<Rightarrow> int" where
  "ymd2ord year month day = days_before_year year + days_before_month year month + day"

definition ord2ymd :: "int \<Rightarrow> int \<times> int \<times> int" where
  "ord2ymd ordinal =
     (let n = ordinal - 1;
          n400 = n div 146097; n = n mod 146097;
          year = n400 * 400 + 1;
          n100 = n div 36524; n = n mod 36524;
          n4 = n div 1461; n = n mod 1461;
          n1 = n div 365; n = n mod 365;
          year = year + n100 * 100 + n4 * 4 + n1
      in if n1 = 4 \<or> n100 = 4 then (year - 1, 12, 31)
         else let leapyear = (n1 = 3 \<and> (n4 \<noteq> 24 \<or> n100 = 3));
                  month = (n + 50) div 32;
                  preceding = DAYS_BEFORE_MONTH ! nat month
                              + (if month > 2 \<and> leapyear then 1 else 0)
              in if preceding > n
                 then let month = month - 1;
                          preceding = preceding
                            - (DAYS_IN_MONTH ! nat month
                               + (if month = 2 \<and> leapyear then 1 else 0))
                      in (year, month, n - preceding + 1)
                 else (year, month, n - preceding + 1))"

text \<open>
  \<^verbatim>\<open>strptime\<close> with the format \<^verbatim>\<open>%Y-%m-%d\<close> matches the whole string against
  \<^verbatim>\<open>\d\d\d\d-(1[0-2]|0[1-9]|[1-9])-(3[01]|[12]\d|0[1-9]|[1-9]| [1-9])\<close>; none of the three
  groups can hold a dash, so the string is cut at its dashes and each part is matched. The
  digits are the ASCII digits. A year 0 or a day beyond the month's length is refused when
  the date is built.
\<close>

definition digit_val :: "char \<Rightarrow> int option" where
  "digit_val c =
     map_of [(CHR ''0'', 0), (CHR ''1'', 1), (CHR ''2'', 2), (CHR ''3'', 3), (CHR ''4'', 4),
             (CHR ''5'', 5), (CHR ''6'', 6), (CHR ''7'', 7), (CHR ''8'', 8), (CHR ''9'', 9)] c"

fun split_dash :: "string \<Rightarrow> string list" where
  "split_dash [] = [[]]"
| "split_dash (c # cs) =
     (if c = CHR ''-'' then [] # split_dash cs
      else (case split_dash cs of [] \<Rightarrow> [[c]] | part # parts \<Rightarrow> (c # part) # parts))"

fun parse_year :: "string \<Rightarrow> int option" where
  "parse_year [a, b, c, d] =
     Option.bind (digit_val a) (\<lambda>p. Option.bind (digit_val b) (\<lambda>q.
     Option.bind (digit_val c) (\<lambda>r. Option.bind (digit_val d) (\<lambda>s.
     Some (1000 * p + 100 * q + 10 * r + s)))))"
| "parse_year _ = None"

fun parse_month :: "string \<Rightarrow> int option" where
  "parse_month [a] = Option.bind (digit_val a) (\<lambda>p. if 1 \<le> p then Some p else None)"
| "parse_month [a, b] =
     Option.bind (digit_val a) (\<lambda>p. Option.bind (digit_val b) (\<lambda>q.
     if p = 1 \<and> q \<le> 2 then Some (10 + q)
     else if p = 0 \<and> 1 \<le> q then Some q
     else None))"
| "parse_month _ = None"

fun parse_day :: "string \<Rightarrow> int option" where
  "parse_day [a] = Option.bind (digit_val a) (\<lambda>p. if 1 \<le> p then Some p else None)"
| "parse_day [a, b] =
     (if a = CHR '' '' then Option.bind (digit_val b) (\<lambda>q. if 1 \<le> q then Some q else None)
      else Option.bind (digit_val a) (\<lambda>p. Option.bind (digit_val b) (\<lambda>q.
           if p = 3 \<and> q \<le> 1 then Some (30 + q)
           else if p = 1 \<or> p = 2 then Some (10 * p + q)
           else if p = 0 \<and> 1 \<le> q then Some q
           else None)))"
| "parse_day _ = None"

definition strptime :: "string \<Rightarrow> error + int" where
  "strptime s =
     (case split_dash s of
        [ys, ms, ds] \<Rightarrow>
          (case Option.bind (parse_year ys) (\<lambda>year. Option.bind (parse_month ms) (\<lambda>month.
                Option.bind (parse_day ds) (\<lambda>day. Some (year, month, day)))) of
             None \<Rightarrow> Inl ValueError
           | Some (year, month, day) \<Rightarrow>
               if 1 \<le> year \<and> day \<le> days_in_month year month
               then Inr (ymd2ord year month day) else Inl ValueError)
      | _ \<Rightarrow> Inl ValueError)"

text \<open>
  \<^verbatim>\<open>strftime("%Y-%m-%d")\<close>: four digits of year, two of month, two of day. (The C
  library that Python calls pads a year below 1000 differently from one platform to the
  next; the model pads with zeros.)
\<close>

definition digit_char :: "int \<Rightarrow> char" where
  "digit_char n = ''0123456789'' ! nat n"

definition strftime :: "int \<Rightarrow> string" where
  "strftime ordinal =
     (case ord2ymd ordinal of (year, month, day) \<Rightarrow>
        [digit_char (year div 1000), digit_char (year div 100 mod 10),
         digit_char (year div 10 mod 10), digit_char (year mod 10), CHR ''-'',
         digit_char (month div 10), digit_char (month mod 10), CHR ''-'',
         digit_char (day div 10), digit_char (day mod 10)])"

text \<open>Adding a \<^verbatim>\<open>timedelta\<close> of whole days raises when the result leaves years 1 to 9999.\<close>

definition add_days :: "int \<Rightarrow> int \<Rightarrow> error + int" where
  "add_days d n = (if 0 < d + n \<and> d + n \<le> MAXORDINAL then Inr (d + n) else Inl OverflowError)"

section \<open>Itinerary assembly\<close>

record day_plan =
  dp_date :: string
  dp_activities :: "candidate list"
  dp_total_cost :: pyfloat
  dp_total_time_hours :: pyfloat

record trip_summary =
  sm_total_cost :: pyfloat
  sm_total_time_hours :: pyfloat
  sm_duration_days :: int
  sm_departure_date :: string
  sm_return_date :: string

record itinerary =
  flight :: "candidate option"
  hotel :: "candidate option"
  days :: "day_plan list"
  summary :: trip_summary

text \<open>
  What \<^verbatim>\<open>if best: total += best.get(key, 0)\<close> adds: nothing for \<open>None\<close> and for a dict
  without keys.
\<close>

definition add_if_selected ::
  "pyfloat \<Rightarrow> candidate option \<Rightarrow> (candidate \<Rightarrow> pyfloat option) \<Rightarrow> pyfloat" where
  "add_if_selected acc best field =
     (case best of None \<Rightarrow> acc
      | Some c \<Rightarrow> if truthy c then fadd acc (dict_get (field c) (Fin 0)) else acc)"

text \<open>The body of the \<^verbatim>\<open>while\<close> loop for one date.\<close>

definition plan_day :: "candidate list \<Rightarrow> int \<Rightarrow> day_plan" where
  "plan_day activities current_date =
     (let date_str = strftime current_date;
          day_activities = filter (\<lambda>a. date a = Some date_str) activities;
          selected_activities = select_activities day_activities 3 (Fin 8);
          day_cost = py_sum (map (\<lambda>a. dict_get (total_price a) (Fin 0)) selected_activities);
          day_time = py_sum (map (\<lambda>a. dict_get (duration_hours a) (Fin 0)) selected_activities)
      in \<lparr>dp_date = date_str, dp_activities = selected_activities,
          dp_total_cost = day_cost, dp_total_time_hours = day_time\<rparr>)"

function day_loop ::
  "candidate list \<Rightarrow> int \<Rightarrow> int \<Rightarrow> day_plan list \<Rightarrow> pyfloat \<Rightarrow> pyfloat
   \<Rightarrow> error + (day_plan list \<times> pyfloat \<times> pyfloat)" where
  "day_loop activities current_date return_dt itinerary_days total_cost total_time =
     (if current_date < return_dt
      then let day = plan_day activities current_date
           in (case add_days current_date 1 of
                 Inl e \<Rightarrow> Inl e
               | Inr next_date \<Rightarrow>
                   day_loop activities next_date return_dt (itinerary_days @ [day])
                     (fadd total_cost (dp_total_cost day))
                     (fadd total_time (dp_total_time_hours day)))
      else Inr (itinerary_days, total_cost, total_time))"
  by pat_completeness auto
termination
  by (relation "measure (\<lambda>(activities, current_date, return_dt, rest). nat (return_dt - current_date))")
     (auto simp: add_days_def split: if_splits)

text \<open>
  The loop's equation is an unconditional equation of \<open>day_loop\<close> in terms of itself; it
  is unfolded by hand.
\<close>

declare day_loop.simps [simp del]

definition create_itinerary ::
  "optimizer \<Rightarrow> candidate list \<Rightarrow> candidate list \<Rightarrow> candidate list \<Rightarrow> string \<Rightarrow> string
   \<Rightarrow> error + itinerary" where
  "create_itinerary self flights hotels activities departure_str return_str =
     bind_result (select_best_flight self flights) (\<lambda>best_flight.
     bind_result (select_best_hotel self hotels) (\<lambda>best_hotel.
     bind_result (strptime departure_str) (\<lambda>departure.
     bind_result (strptime return_str) (\<lambda>return_dt.
     bind_result (add_days departure 1) (\<lambda>current_date.
     let total_cost = add_if_selected (Fin 0) best_flight total_price;
         total_time = add_if_selected (Fin 0) best_flight duration_hours;
         total_cost = add_if_selected total_cost best_hotel total_price
     in bind_result (day_loop activities current_date return_dt [] total_cost total_time)
          (\<lambda>(itinerary_days, total_cost, total_time).
           Inr \<lparr>flight = best_flight, hotel = best_hotel, days = itinerary_days,
                summary = \<lparr>sm_total_cost = total_cost, sm_total_time_hours = total_time,
                            sm_duration_days = return_dt - departure,
                            sm_departure_date = departure_str,
                            sm_return_date = return_str\<rparr>\<rparr>))))))"

section \<open>The specification's normalization formulas\<close>







section \<open>Concrete inputs\<close>

text \<open>A dict without keys, from which examples are built, and the default weights.\<close>

definition no_keys :: candidate where
  "no_keys = \<lparr>total_price = None, duration_hours = None, rating = None,
               price_per_person = None, date = None, other = []\<rparr>"

definition default_optimizer :: optimizer where
  "default_optimizer = \<lparr>cost_weight = Fin (6 / 10), time_weight = Fin (4 / 10)\<rparr>"

text \<open>An activity for two travellers on the second of June 2025.\<close>

definition activity :: "string \<Rightarrow> real \<Rightarrow> real \<Rightarrow> real \<Rightarrow> candidate" where
  "activity name price stars hours =
     \<lparr>total_price = Some (Fin (2 * price)), duration_hours = Some (Fin hours),
      rating = Some (Fin stars), price_per_person = Some (Fin price),
      date = Some ''2025-06-02'', other = [(''name'', name)]\<rparr>"

section \<open>Construction\<close>


section \<open>Normalization\<close>

subsection \<open>Finite values\<close>
























subsection \<open>Lookup by value\<close>

lemma np_max_nonempty: "xs \<noteq> [] \<Longrightarrow> \<exists>m. np_max xs = Inr m"
  by (cases xs) (simp_all add: np_max_def)

lemma np_min_nonempty: "xs \<noteq> [] \<Longrightarrow> \<exists>m. np_min xs = Inr m"
  by (cases xs) (simp_all add: np_min_def)

lemma normalize_cost_pointwise: "\<exists>g. normalize_cost costs = Inr (map g costs)"
proof (cases "costs = []")
  case True
  then show ?thesis by (simp add: normalize_cost_def)
next
  case False
  then obtain hi lo where "np_max costs = Inr hi" "np_min costs = Inr lo"
    using np_max_nonempty np_min_nonempty by blast
  with False show ?thesis
    by (auto simp: normalize_cost_def bind_result_def)
qed

lemma normalize_time_pointwise: "\<exists>g. normalize_time ts = Inr (map g ts)"
proof (cases "ts = []")
  case True
  then show ?thesis by (simp add: normalize_time_def)
next
  case False
  then obtain hi lo where "np_max ts = Inr hi" "np_min ts = Inr lo"
    using np_max_nonempty np_min_nonempty by blast
  with False show ?thesis
    by (auto simp: normalize_time_def bind_result_def)
qed

lemma index_from_nth:
  "i < length xs \<Longrightarrow> \<exists>j. index_from k (xs ! i) xs = Inr (k + j) \<and> j < length xs \<and> xs ! j = xs ! i"
proof (induction xs arbitrary: i k)
  case Nil
  then show ?case by simp
next
  case (Cons x xs)
  show ?case
  proof (cases "x = (x # xs) ! i")
    case True
    then have "index_from k ((x # xs) ! i) (x # xs) = Inr (k + 0)" by simp
    with True show ?thesis by (metis length_greater_0_conv list.discI nth_Cons_0)
  next
    case False
    then obtain i' where i': "i = Suc i'" by (cases i) auto
    with Cons.prems have "i' < length xs" by simp
    from Cons.IH [OF this, of "Suc k"] obtain j where
      "index_from (Suc k) (xs ! i') xs = Inr (Suc k + j)" "j < length xs" "xs ! j = xs ! i'"
      by blast
    with False i' have "index_from k ((x # xs) ! i) (x # xs) = Inr (k + Suc j)
        \<and> Suc j < length (x # xs) \<and> (x # xs) ! Suc j = (x # xs) ! i"
      by simp
    then show ?thesis by blast
  qed
qed

lemma py_index_nth:
  "i < length xs \<Longrightarrow> \<exists>j. py_index xs (xs ! i) = Inr j \<and> j < length xs \<and> xs ! j = xs ! i"
  using index_from_nth [of i xs 0] by (simp add: py_index_def)

lemma calculate_score_nth:
  assumes "i < length costs" and "i < length ts"
    and "normalize_cost costs = Inr nc" and "normalize_time ts = Inr nt"
  shows "calculate_score self (costs ! i) (ts ! i) costs ts
         = Inr (fadd (fmul (cost_weight self) (nc ! i)) (fmul (time_weight self) (nt ! i)))"
proof -
  obtain g where g: "nc = map g costs"
    using normalize_cost_pointwise [of costs] assms(3) by auto
  obtain h where h: "nt = map h ts"
    using normalize_time_pointwise [of ts] assms(4) by auto
  obtain j where j: "py_index costs (costs ! i) = Inr j" "j < length costs" "costs ! j = costs ! i"
    using py_index_nth [OF assms(1)] by blast
  obtain k where k: "py_index ts (ts ! i) = Inr k" "k < length ts" "ts ! k = ts ! i"
    using py_index_nth [OF assms(2)] by blast
  show ?thesis
    using assms j k by (simp add: calculate_score_def g h bind_result_def py_get_def)
qed

text \<open>
  Claim C10. \<^verbatim>\<open>calculate_score\<close> finds the scores of a candidate through the first
  occurrence of its cost and of its time; for the cost and time at position \<open>i\<close> this is
  the weighted sum of the normalized cost and the normalized time at position \<open>i\<close>, also
  with duplicate values, and the lookup never fails.
\<close>

theorem calculate_score_by_position:
  assumes "i < length costs" and "i < length ts"
  shows "\<exists>cost_normalized time_normalized.
           normalize_cost costs = Inr cost_normalized
         \<and> normalize_time ts = Inr time_normalized
         \<and> length cost_normalized = length costs \<and> length time_normalized = length ts
         \<and> calculate_score self (costs ! i) (ts ! i) costs ts
             = Inr (fadd (fmul (cost_weight self) (cost_normalized ! i))
                         (fmul (time_weight self) (time_normalized ! i)))"
proof -
  obtain g where g: "normalize_cost costs = Inr (map g costs)"
    using normalize_cost_pointwise by blast
  obtain h where h: "normalize_time ts = Inr (map h ts)"
    using normalize_time_pointwise by blast
  show ?thesis
    using calculate_score_nth [OF assms g h] g h by simp
qed

theorem calculate_score_by_position_witness:
  "(2::nat) < length [Fin 100, Fin 300, Fin 100] \<and> (2::nat) < length [Fin 5, Fin 5, Fin 9]
   \<and> calculate_score \<lparr>cost_weight = Fin (6 / 10), time_weight = Fin (4 / 10)\<rparr>
        (Fin 100) (Fin 9) [Fin 100, Fin 300, Fin 100] [Fin 5, Fin 5, Fin 9] = Inr (Fin (6 / 10))"
  using calculate_score_by_position [of 2 "[Fin 100, Fin 300, Fin 100]" "[Fin 5, Fin 5, Fin 9]"
      "\<lparr>cost_weight = Fin (6 / 10), time_weight = Fin (4 / 10)\<rparr>"]
  by (simp add: normalize_cost_def normalize_time_def bind_result_def np_max_def np_min_def
      np_max2_def np_min2_def feq_def fsub_def)

section \<open>Selection of the best flight and hotel\<close>

subsection \<open>The argmax of finite scores\<close>
















lemmas eval_scorer =
  select_best_flight_def select_best_hotel_def calculate_score_def normalize_cost_def
  normalize_time_def normalize_rating_def bind_result_def np_max_def np_min_def np_max2_def
  np_min2_def np_argmax_def py_index_def py_get_def dict_get_def feq_def fsub_def fle_def
  no_keys_def default_optimizer_def Let_def




subsection \<open>Candidates with missing fields\<close>

text \<open>
  Claim C1 says that a candidate without a price or duration is never selected when a
  complete candidate exists. The source reads a missing price or duration as
  \<^verbatim>\<open>float('inf')\<close> for this purpose, but the normalization turns that infinity into NaN
  (\<open>inf - lo\<close> over \<open>inf - lo\<close>), and \<^verbatim>\<open>np.argmax\<close> prefers NaN to every number. So a
  flight without \<^verbatim>\<open>total_price\<close> is selected over a complete flight, and a hotel without
  \<^verbatim>\<open>total_price\<close> over a complete hotel.
\<close>

theorem select_best_prefers_incomplete:
  "select_best_flight default_optimizer
     [no_keys\<lparr>total_price := Some (Fin 100), duration_hours := Some (Fin 5)\<rparr>,
      no_keys\<lparr>duration_hours := Some (Fin 3)\<rparr>]
    = Inr (Some (no_keys\<lparr>duration_hours := Some (Fin 3)\<rparr>))
   \<and> select_best_hotel default_optimizer
     [no_keys\<lparr>total_price := Some (Fin 100), rating := Some (Fin 4)\<rparr>,
      no_keys\<lparr>rating := Some (Fin 3)\<rparr>]
    = Inr (Some (no_keys\<lparr>rating := Some (Fin 3)\<rparr>))"
  by (simp add: eval_scorer upt_rec)

section \<open>Selection of a day's activities\<close>
















lemma value_divisor_nonzero:
  "flt (Fin 0) price \<Longrightarrow> fdiv price (Fin 50) \<noteq> Fin 0"
  by (cases price) simp_all





section \<open>Properties of the itinerary\<close>

subsection \<open>Sums and the loop over the days\<close>





lemma day_loop_plans:
  assumes "0 \<le> current_date" and "return_dt \<le> MAXORDINAL"
  shows "day_loop activities current_date return_dt itinerary_days total_cost total_time
         = Inr (itinerary_days @ map (plan_day activities) [current_date..return_dt - 1],
                foldl fadd total_cost
                  (map (\<lambda>d. dp_total_cost (plan_day activities d)) [current_date..return_dt - 1]),
                foldl fadd total_time
                  (map (\<lambda>d. dp_total_time_hours (plan_day activities d))
                     [current_date..return_dt - 1]))"
  using assms
proof (induction activities current_date return_dt itinerary_days total_cost total_time
    rule: day_loop.induct)
  case (1 activities current_date return_dt itinerary_days total_cost total_time)
  show ?case
  proof (cases "current_date < return_dt")
    case False
    then show ?thesis by (simp add: day_loop.simps [of _ current_date])
  next
    case True
    then have next_ok: "add_days current_date 1 = Inr (current_date + 1)"
      using "1.prems" by (simp add: add_days_def)
    have rec: "[current_date..return_dt - 1] = current_date # [current_date + 1..return_dt - 1]"
      using True by (simp add: upto_rec1)
    have "0 \<le> current_date + 1" using "1.prems" by simp
    from "1.IH" [OF True refl next_ok this "1.prems"(2)] True next_ok
    show ?thesis
      by (simp add: day_loop.simps [of _ current_date] rec Let_def)
  qed
qed


subsection \<open>Parsed dates lie between 0001-01-01 and 9999-12-31\<close>

lemma digit_val_range: "digit_val c = Some p \<Longrightarrow> 0 \<le> p \<and> p \<le> 9"
  by (auto simp: digit_val_def split: if_splits)

lemma parse_year_range: "parse_year s = Some y \<Longrightarrow> 0 \<le> y \<and> y \<le> 9999"
  by (cases s rule: parse_year.cases)
     (auto split: Option.bind_splits dest!: digit_val_range)

lemma parse_month_range: "parse_month s = Some m \<Longrightarrow> 1 \<le> m \<and> m \<le> 12"
  by (cases s rule: parse_month.cases)
     (auto split: Option.bind_splits if_splits dest!: digit_val_range)

lemma parse_day_range: "parse_day s = Some d \<Longrightarrow> 1 \<le> d"
  by (cases s rule: parse_day.cases)
     (auto split: Option.bind_splits if_splits dest!: digit_val_range)

lemma months_enumerated: "[1..12] = [1, 2, 3, 4, 5, 6, 7, 8, 9, 10, 11, 12 :: int]"
  by (simp add: upto.simps)

lemma month_cases:
  assumes "1 \<le> (m::int)" and "m \<le> 12"
  obtains "m = 1" | "m = 2" | "m = 3" | "m = 4" | "m = 5" | "m = 6"
    | "m = 7" | "m = 8" | "m = 9" | "m = 10" | "m = 11" | "m = 12"
proof -
  have "m \<in> set [1..12]" using assms by simp
  then have "m \<in> set [1, 2, 3, 4, 5, 6, 7, 8, 9, 10, 11, 12 :: int]"
    unfolding months_enumerated .
  then show ?thesis using that by auto
qed

lemma day_of_year_range:
  assumes "1 \<le> m" and "m \<le> 12" and "1 \<le> d" and "d \<le> days_in_month y m"
  shows "1 \<le> days_before_month y m + d
       \<and> days_before_month y m + d \<le> (if is_leap y then 366 else 365)"
  using assms(1,2)
proof (cases rule: month_cases)
qed (use assms(3,4) in
    \<open>simp_all add: days_before_month_def days_in_month_def DAYS_BEFORE_MONTH_def
       DAYS_IN_MONTH_def eval_nat_numeral split: if_splits\<close>)

lemma days_before_year_parts:
  assumes "0 \<le> (y::int)"
  shows "y div 400 \<le> y div 100" and "y div 100 \<le> y div 4" and "0 \<le> y div 400"
  using assms by (simp_all add: zdiv_mono2 pos_imp_zdiv_nonneg_iff)

lemma days_before_year_nonneg: "1 \<le> y \<Longrightarrow> 0 \<le> days_before_year y"
  using days_before_year_parts [of "y - 1"] by (simp add: days_before_year_def Let_def)

lemma days_before_year_bound:
  assumes "1 \<le> y" and "y \<le> 9998"
  shows "days_before_year y \<le> 3651404"
proof -
  have "(y - 1) div 4 \<le> 9997 div 4"
    using assms(2) by (intro zdiv_mono1) simp_all
  then have "(y - 1) div 4 \<le> 2499" by simp
  moreover have "(y - 1) * 365 \<le> 9997 * 365"
    using assms(2) by simp
  ultimately show ?thesis
    using days_before_year_parts [of "y - 1"] assms(1)
    by (simp add: days_before_year_def Let_def)
qed

lemma days_before_year_9999: "days_before_year 9999 = 3651694"
  by (simp add: days_before_year_def Let_def)

lemma not_leap_9999: "\<not> is_leap 9999"
  by (simp add: is_leap_def)

lemma ymd2ord_range:
  assumes "1 \<le> y" and "y \<le> 9999" and "1 \<le> m" and "m \<le> 12" and "1 \<le> d"
    and "d \<le> days_in_month y m"
  shows "1 \<le> ymd2ord y m d \<and> ymd2ord y m d \<le> MAXORDINAL"
proof -
  note doy = day_of_year_range [OF assms(3-6)]
  have lower: "1 \<le> ymd2ord y m d"
    using doy days_before_year_nonneg [OF assms(1)] by (simp add: ymd2ord_def)
  have upper: "ymd2ord y m d \<le> MAXORDINAL"
  proof (cases "y = 9999")
    case True
    with doy show ?thesis
      by (simp add: ymd2ord_def MAXORDINAL_def days_before_year_9999 not_leap_9999)
  next
    case False
    with assms(2) have "y \<le> 9998" by simp
    from days_before_year_bound [OF assms(1) this] doy show ?thesis
      by (simp add: ymd2ord_def MAXORDINAL_def split: if_splits)
  qed
  from lower upper show ?thesis ..
qed

lemma strptime_range:
  assumes "strptime s = Inr n"
  shows "1 \<le> n \<and> n \<le> MAXORDINAL"
proof -
  from assms obtain ys ms ds y m d where
    "parse_year ys = Some y" "parse_month ms = Some m" "parse_day ds = Some d"
    "1 \<le> y" "d \<le> days_in_month y m" "n = ymd2ord y m d"
    by (auto simp: strptime_def split: list.splits option.splits Option.bind_splits if_splits)
  with parse_year_range parse_month_range parse_day_range ymd2ord_range show ?thesis
    by blast
qed


subsection \<open>The selections never raise\<close>






text \<open>The itinerary that \<^verbatim>\<open>create_itinerary\<close> builds from the selections and the parsed dates.\<close>

lemma create_itinerary_result:
  assumes "select_best_flight self flights = Inr best_flight"
    and "select_best_hotel self hotels = Inr best_hotel"
    and "strptime departure_str = Inr departure" and "strptime return_str = Inr return_dt"
    and "departure < MAXORDINAL"
  shows "create_itinerary self flights hotels activities departure_str return_str
         = Inr \<lparr>flight = best_flight, hotel = best_hotel,
                days = map (plan_day activities) [departure + 1..return_dt - 1],
                summary =
                  \<lparr>sm_total_cost =
                      foldl fadd
                        (add_if_selected (add_if_selected (Fin 0) best_flight total_price)
                           best_hotel total_price)
                        (map (\<lambda>d. dp_total_cost (plan_day activities d))
                           [departure + 1..return_dt - 1]),
                    sm_total_time_hours =
                      foldl fadd (add_if_selected (Fin 0) best_flight duration_hours)
                        (map (\<lambda>d. dp_total_time_hours (plan_day activities d))
                           [departure + 1..return_dt - 1]),
                    sm_duration_days = return_dt - departure,
                    sm_departure_date = departure_str, sm_return_date = return_str\<rparr>\<rparr>"
proof -
  have d: "1 \<le> departure" and r: "return_dt \<le> MAXORDINAL"
    using strptime_range assms(3,4) by blast+
  have next_ok: "add_days departure 1 = Inr (departure + 1)"
    using d assms(5) by (simp add: add_days_def)
  have "0 \<le> departure + 1" using d by simp
  note loop = day_loop_plans [OF this r, of activities "[]"]
  show ?thesis
    by (simp add: create_itinerary_def assms(1-4) next_ok loop bind_result_def Let_def)
qed






lemma plan_day_cost:
  "dp_total_cost (plan_day activities d)
   = py_sum (map (\<lambda>a. dict_get (total_price a) (Fin 0)) (dp_activities (plan_day activities d)))"
  by (simp add: plan_day_def Let_def)

lemma plan_day_time:
  "dp_total_time_hours (plan_day activities d)
   = py_sum (map (\<lambda>a. dict_get (duration_hours a) (Fin 0))
       (dp_activities (plan_day activities d)))"
  by (simp add: plan_day_def Let_def)

lemma plan_day_no_activities:
  "plan_day [] d = \<lparr>dp_date = strftime d, dp_activities = [],
                    dp_total_cost = Fin 0, dp_total_time_hours = Fin 0\<rparr>"
  by (simp add: plan_day_def select_activities_def py_sum_def Let_def)

lemma foldl_fadd_zeros: "foldl fadd (Fin 0) (map (\<lambda>d. Fin 0) xs) = Fin 0"
  by (induction xs) simp_all


lemmas eval_dates =
  strptime_def digit_val_def days_in_month_def is_leap_def DAYS_IN_MONTH_def
  DAYS_BEFORE_MONTH_def ymd2ord_def days_before_year_def days_before_month_def ord2ymd_def
  strftime_def digit_char_def add_days_def MAXORDINAL_def Let_def


subsection \<open>The days of the trip\<close>






subsection \<open>The summary\<close>






subsection \<open>Empty candidate lists\<close>

lemma create_itinerary_empty_lists:
  "create_itinerary self [] [] [] departure_str return_str
   = bind_result (strptime departure_str) (\<lambda>departure.
     bind_result (strptime return_str) (\<lambda>return_dt.
     bind_result (add_days departure 1) (\<lambda>first_day.
     Inr \<lparr>flight = None, hotel = None,
          days = map (\<lambda>d. \<lparr>dp_date = strftime d, dp_activities = [],
                             dp_total_cost = Fin 0, dp_total_time_hours = Fin 0\<rparr>)
                   [first_day..return_dt - 1],
          summary = \<lparr>sm_total_cost = Fin 0, sm_total_time_hours = Fin 0,
                      sm_duration_days = return_dt - departure,
                      sm_departure_date = departure_str, sm_return_date = return_str\<rparr>\<rparr>)))"
proof (cases "strptime departure_str")
  case (Inl e)
  then show ?thesis
    by (simp add: create_itinerary_def select_best_flight_def select_best_hotel_def
        bind_result_def)
next
  case departure: (Inr departure)
  show ?thesis
  proof (cases "strptime return_str")
    case (Inl e)
    with departure show ?thesis
      by (simp add: create_itinerary_def select_best_flight_def select_best_hotel_def
          bind_result_def)
  next
    case return_dt: (Inr return_dt)
    show ?thesis
    proof (cases "add_days departure 1")
      case (Inl e)
      with departure return_dt show ?thesis
        by (simp add: create_itinerary_def select_best_flight_def select_best_hotel_def
            bind_result_def)
    next
      case (Inr first_day)
      then have first_day: "first_day = departure + 1" and last: "departure < MAXORDINAL"
        by (simp_all add: add_days_def split: if_splits)
      have f: "select_best_flight self [] = Inr None"
        by (simp add: select_best_flight_def)
      have h: "select_best_hotel self [] = Inr None"
        by (simp add: select_best_hotel_def)
      show ?thesis
        unfolding create_itinerary_result [OF f h departure return_dt last, of "[]"]
        by (simp add: departure return_dt Inr first_day bind_result_def plan_day_no_activities
            add_if_selected_def foldl_fadd_zeros)
    qed
  qed
qed

text \<open>
  Claim C8. An empty flight list and an empty hotel list select \<open>None\<close>, an empty activity
  list selects no activities, and \<^verbatim>\<open>create_itinerary\<close> on three empty lists raises only
  what the handling of the two dates raises: otherwise it returns no flight, no hotel, an
  empty day plan for every full day and zero totals. For the dates 2025-06-01 and
  2025-06-08 these are the six empty day plans of June 2 to June 7 and a duration of 7 days.
\<close>

theorem empty_candidate_lists:
  "select_best_flight self [] = Inr None \<and> select_best_hotel self [] = Inr None
   \<and> select_activities [] K H = []
   \<and> create_itinerary self [] [] [] departure_str return_str
      = bind_result (strptime departure_str) (\<lambda>departure.
        bind_result (strptime return_str) (\<lambda>return_dt.
        bind_result (add_days departure 1) (\<lambda>first_day.
        Inr \<lparr>flight = None, hotel = None,
             days = map (\<lambda>d. \<lparr>dp_date = strftime d, dp_activities = [],
                                dp_total_cost = Fin 0, dp_total_time_hours = Fin 0\<rparr>)
                      [first_day..return_dt - 1],
             summary = \<lparr>sm_total_cost = Fin 0, sm_total_time_hours = Fin 0,
                         sm_duration_days = return_dt - departure,
                         sm_departure_date = departure_str, sm_return_date = return_str\<rparr>\<rparr>)))
   \<and> create_itinerary self [] [] [] ''2025-06-01'' ''2025-06-08''
      = Inr \<lparr>flight = None, hotel = None,
             days =
               [\<lparr>dp_date = ''2025-06-02'', dp_activities = [],
                  dp_total_cost = Fin 0, dp_total_time_hours = Fin 0\<rparr>,
                \<lparr>dp_date = ''2025-06-03'', dp_activities = [],
                  dp_total_cost = Fin 0, dp_total_time_hours = Fin 0\<rparr>,
                \<lparr>dp_date = ''2025-06-04'', dp_activities = [],
                  dp_total_cost = Fin 0, dp_total_time_hours = Fin 0\<rparr>,
                \<lparr>dp_date = ''2025-06-05'', dp_activities = [],
                  dp_total_cost = Fin 0, dp_total_time_hours = Fin 0\<rparr>,
                \<lparr>dp_date = ''2025-06-06'', dp_activities = [],
                  dp_total_cost = Fin 0, dp_total_time_hours = Fin 0\<rparr>,
                \<lparr>dp_date = ''2025-06-07'', dp_activities = [],
                  dp_total_cost = Fin 0, dp_total_time_hours = Fin 0\<rparr>],
             summary = \<lparr>sm_total_cost = Fin 0, sm_total_time_hours = Fin 0,
                         sm_duration_days = 7, sm_departure_date = ''2025-06-01'',
                         sm_return_date = ''2025-06-08''\<rparr>\<rparr>"
proof -
  have selections: "select_best_flight self [] = Inr None \<and> select_best_hotel self [] = Inr None
      \<and> select_activities [] K H = []"
    by (simp add: select_best_flight_def select_best_hotel_def select_activities_def)
  have dates: "strptime ''2025-06-01'' = Inr 739403 \<and> strptime ''2025-06-08'' = Inr 739410"
    by (simp add: eval_dates)
  have june: "map strftime [739404, 739405, 739406, 739407, 739408, 739409]
              = [''2025-06-02'', ''2025-06-03'', ''2025-06-04'', ''2025-06-05'', ''2025-06-06'',
                 ''2025-06-07'']"
    by (simp add: eval_dates)
  have example: "create_itinerary self [] [] [] ''2025-06-01'' ''2025-06-08''
      = Inr \<lparr>flight = None, hotel = None,
             days = map (\<lambda>d. \<lparr>dp_date = strftime d, dp_activities = [],
                                dp_total_cost = Fin 0, dp_total_time_hours = Fin 0\<rparr>)
                      [739404, 739405, 739406, 739407, 739408, 739409],
             summary = \<lparr>sm_total_cost = Fin 0, sm_total_time_hours = Fin 0,
                         sm_duration_days = 7, sm_departure_date = ''2025-06-01'',
                         sm_return_date = ''2025-06-08''\<rparr>\<rparr>"
    unfolding create_itinerary_empty_lists
    by (simp add: dates bind_result_def add_days_def MAXORDINAL_def)
  from june have "map (\<lambda>d. \<lparr>dp_date = strftime d, dp_activities = [],
                                dp_total_cost = Fin 0, dp_total_time_hours = Fin 0\<rparr>)
                      [739404, 739405, 739406, 739407, 739408, 739409]
      = [\<lparr>dp_date = ''2025-06-02'', dp_activities = [],
                  dp_total_cost = Fin 0, dp_total_time_hours = Fin 0\<rparr>,
                \<lparr>dp_date = ''2025-06-03'', dp_activities = [],
                  dp_total_cost = Fin 0, dp_total_time_hours = Fin 0\<rparr>,
                \<lparr>dp_date = ''2025-06-04'', dp_activities = [],
                  dp_total_cost = Fin 0, dp_total_time_hours = Fin 0\<rparr>,
                \<lparr>dp_date = ''2025-06-05'', dp_activities = [],
                  dp_total_cost = Fin 0, dp_total_time_hours = Fin 0\<rparr>,
                \<lparr>dp_date = ''2025-06-06'', dp_activities = [],
                  dp_total_cost = Fin 0, dp_total_time_hours = Fin 0\<rparr>,
                \<lparr>dp_date = ''2025-06-07'', dp_activities = [],
                  dp_total_cost = Fin 0, dp_total_time_hours = Fin 0\<rparr>]"
    by simp
  with example selections create_itinerary_empty_lists [of self departure_str return_str]
  show ?thesis by simp
qed

end
